theory Spec2Isabelle
  imports Complex_Main "HOL-Library.Multiset" "HOL-Library.Sublist"
begin

section \<open>Strings\<close>

text \<open>
  Source text, file names and messages are strings of code units. The operations below
  are the string methods of the language the analysis engine is written in, as far as
  the engine uses them.
\<close>

definition newline :: char where
  "newline = CHR 0x0A"

text \<open>\<open>s.split(sep)\<close> for a one-character separator: never empty, one piece more than
  there are separators.\<close>

fun splitChar :: "char \<Rightarrow> string \<Rightarrow> string list" where
  "splitChar sep [] = [[]]"
| "splitChar sep (x # xs) =
     (if x = sep then [] # splitChar sep xs
      else (case splitChar sep xs of
              [] \<Rightarrow> [[x]]
            | piece # pieces \<Rightarrow> (x # piece) # pieces))"

text \<open>The number of lines of a text: the length of its split at line feeds.\<close>

definition lineCount :: "string \<Rightarrow> nat" where
  "lineCount s = length (splitChar newline s)"

text \<open>\<open>s.includes(c)\<close> for a one-character needle.\<close>

definition includesChar :: "string \<Rightarrow> char \<Rightarrow> bool" where
  "includesChar s c = List.member s c"

text \<open>\<open>s.startsWith(p)\<close>, and a test for a pattern anchored at the end of the string.\<close>

definition startsWith :: "string \<Rightarrow> string \<Rightarrow> bool" where
  "startsWith s p = (take (length p) s = p)"

definition endsWith :: "string \<Rightarrow> string \<Rightarrow> bool" where
  "endsWith s p = (length p \<le> length s \<and> drop (length s - length p) s = p)"

text \<open>Whether \<open>p\<close> occurs somewhere in \<open>s\<close>.\<close>

fun containsText :: "string \<Rightarrow> string \<Rightarrow> bool" where
  "containsText [] p = (p = [])"
| "containsText (x # xs) p = (startsWith (x # xs) p \<or> containsText xs p)"

text \<open>\<open>s.split('::')[0]\<close>: the text before the first \<open>::\<close>, all of it when there is none.\<close>

fun beforeScope :: "string \<Rightarrow> string" where
  "beforeScope [] = []"
| "beforeScope (x # xs) =
     (if startsWith (x # xs) ''::'' then [] else x # beforeScope xs)"

text \<open>\<open>s.replace(c, '')\<close> with a string pattern: only the first occurrence goes.\<close>

fun removeFirst :: "char \<Rightarrow> string \<Rightarrow> string" where
  "removeFirst c [] = []"
| "removeFirst c (x # xs) = (if x = c then xs else x # removeFirst c xs)"

text \<open>White space as \<open>trim\<close> and the white-space pattern see it (tab, line feed,
  vertical tab, form feed, carriage return, space, no-break space).\<close>

definition isSpace :: "char \<Rightarrow> bool" where
  "isSpace c =
     List.member [CHR 0x09, CHR 0x0A, CHR 0x0B, CHR 0x0C, CHR 0x0D, CHR 0x20, CHR 0xA0] c"

definition trim :: "string \<Rightarrow> string" where
  "trim s = rev (dropWhile isSpace (rev (dropWhile isSpace s)))"

text \<open>Replacing the white-space pattern globally by one space: every maximal run of
  white space becomes one space. The flag tells whether the previous character belonged
  to a run.\<close>

fun collapseFrom :: "bool \<Rightarrow> string \<Rightarrow> string" where
  "collapseFrom inRun [] = []"
| "collapseFrom inRun (x # xs) =
     (if isSpace x
      then (if inRun then collapseFrom True xs else CHR '' '' # collapseFrom True xs)
      else x # collapseFrom False xs)"

definition normalizeBody :: "string \<Rightarrow> string" where
  "normalizeBody body = trim (collapseFrom False body)"

text \<open>A number inside a template string: its decimal digits.\<close>

fun showNat :: "nat \<Rightarrow> string" where
  "showNat n =
     (if n < 10 then [''0123456789'' ! n]
      else showNat (n div 10) @ [''0123456789'' ! (n mod 10)])"

declare showNat.simps [simp del]

section \<open>Syntax trees and the tree cursor\<close>

text \<open>
  The analysis engine reads syntax trees through the tree-sitter binding: a node has a
  type tag, its source text, the row where it starts, and children, some of which carry
  a field name (\<open>declarator\<close>, \<open>body\<close>, \<open>field\<close>, \<open>base_class\<close>).
\<close>

datatype node =
  Node (nodeType: string) (nodeText: string) (startRow: nat)
       (fieldChildren: "(string option \<times> node) list")

definition children :: "node \<Rightarrow> node list" where
  "children n = map snd (fieldChildren n)"

text \<open>\<open>node.childForFieldName(name)\<close>: the first child carrying that field name, or null.\<close>

fun lookupField :: "string \<Rightarrow> (string option \<times> node) list \<Rightarrow> node option" where
  "lookupField name [] = None"
| "lookupField name ((f, c) # rest) =
     (if f = Some name then Some c else lookupField name rest)"

definition childForFieldName :: "node \<Rightarrow> string \<Rightarrow> node option" where
  "childForFieldName n name = lookupField name (fieldChildren n)"

text \<open>
  \<open>node.walk()\<close> creates a tree cursor whose root is that node: the cursor holds the
  current node and the path of (parent, child index) frames leading to it from the
  cursor's root. With an empty path the cursor is at its root, where neither
  \<open>gotoNextSibling\<close> nor \<open>gotoParent\<close> can move: the cursor never leaves the node it was
  created on. Each movement returns whether it moved, together with the cursor.
  \<open>gotoFirstChild\<close> is the only movement that descends.
\<close>

record cursor =
  current :: node
  path :: "(node \<times> nat) list"

definition walk :: "node \<Rightarrow> cursor" where
  "walk n = \<lparr>current = n, path = []\<rparr>"

definition cursorNodeType :: "cursor \<Rightarrow> string" where
  "cursorNodeType c = nodeType (current c)"

definition currentNode :: "cursor \<Rightarrow> node" where
  "currentNode c = current c"

definition gotoFirstChild :: "cursor \<Rightarrow> bool \<times> cursor" where
  "gotoFirstChild c =
     (case children (current c) of
        [] \<Rightarrow> (False, c)
      | k # _ \<Rightarrow> (True, \<lparr>current = k, path = (current c, 0) # path c\<rparr>))"

definition gotoNextSibling :: "cursor \<Rightarrow> bool \<times> cursor" where
  "gotoNextSibling c =
     (case path c of
        [] \<Rightarrow> (False, c)
      | (p, i) # up \<Rightarrow>
          (if Suc i < length (children p)
           then (True, \<lparr>current = children p ! Suc i, path = (p, Suc i) # up\<rparr>)
           else (False, c)))"

definition gotoParent :: "cursor \<Rightarrow> bool \<times> cursor" where
  "gotoParent c =
     (case path c of
        [] \<Rightarrow> (False, c)
      | (p, i) # up \<Rightarrow> (True, \<lparr>current = p, path = up\<rparr>))"

text \<open>
  The loop condition shared by every metric:
  \<open>cursor.gotoNextSibling() || cursor.gotoParent() && cursor.gotoNextSibling()\<close>,
  with the short-circuit evaluation written out.
\<close>

definition advance :: "cursor \<Rightarrow> bool \<times> cursor" where
  "advance c =
     (case gotoNextSibling c of
        (True, c1) \<Rightarrow> (True, c1)
      | (False, c1) \<Rightarrow>
          (case gotoParent c1 of
             (True, c2) \<Rightarrow> gotoNextSibling c2
           | (False, c2) \<Rightarrow> (False, c2)))"

text \<open>What is left to the right of and above the cursor; every successful advance shrinks it.\<close>

fun remaining :: "(node \<times> nat) list \<Rightarrow> nat" where
  "remaining [] = 0"
| "remaining ((p, i) # up) = Suc (length (children p) - Suc i) + remaining up"

lemma gotoNextSibling_remaining:
  "gotoNextSibling c = (True, c') \<Longrightarrow> remaining (path c') < remaining (path c)"
  by (cases "path c") (auto simp: gotoNextSibling_def split: if_splits)

lemma gotoNextSibling_False: "gotoNextSibling c = (False, c') \<Longrightarrow> c' = c"
  by (cases "path c") (auto simp: gotoNextSibling_def split: if_splits)

lemma gotoParent_remaining:
  "gotoParent c = (True, c') \<Longrightarrow> remaining (path c') < remaining (path c)"
  by (cases "path c") (auto simp: gotoParent_def)

lemma advance_remaining:
  assumes "advance c = (True, c')"
  shows "remaining (path c') < remaining (path c)"
proof (cases "gotoNextSibling c")
  case (Pair b1 c1)
  show ?thesis
  proof (cases b1)
    case True
    with Pair assms have "c' = c1" by (simp add: advance_def)
    with Pair True show ?thesis by (simp add: gotoNextSibling_remaining)
  next
    case False
    with Pair have c1: "c1 = c" by (simp add: gotoNextSibling_False)
    obtain b2 c2 where up: "gotoParent c = (b2, c2)" by (cases "gotoParent c")
    with Pair False c1 assms have b2 and next2: "gotoNextSibling c2 = (True, c')"
      by (auto simp: advance_def split: bool.splits)
    from up \<open>b2\<close> have "remaining (path c2) < remaining (path c)"
      by (simp add: gotoParent_remaining)
    moreover from next2 have "remaining (path c') < remaining (path c2)"
      by (rule gotoNextSibling_remaining)
    ultimately show ?thesis by simp
  qed
qed

text \<open>
  The traversal \<open>do { body } while (advance)\<close>: the body runs on the cursor's position
  with the accumulated state, then the cursor advances or the loop ends.
\<close>

function doWhile :: "(cursor \<Rightarrow> 's \<Rightarrow> 's) \<Rightarrow> cursor \<Rightarrow> 's \<Rightarrow> 's" where
  "doWhile body c s =
     (case advance c of
        (True, c') \<Rightarrow> doWhile body c' (body c s)
      | (False, _) \<Rightarrow> body c s)"
  by pat_completeness auto
termination
  by (relation "measure (\<lambda>(body, c, s). remaining (path c))")
     (auto dest: advance_remaining [OF sym])

declare doWhile.simps [simp del]

section \<open>Metrics calculator\<close>

record codeMetrics =
  cyclomaticComplexity :: nat
  linesOfCode :: nat
  methodCount :: nat
  inheritanceDepth :: nat
  couplingCount :: nat
  cohesionScore :: real

definition incrementingNodes :: "string list" where
  "incrementingNodes =
     [''if_statement'', ''while_statement'', ''for_statement'', ''case_statement'',
      ''&&'', ''||'', ''catch_clause'']"

definition calculateCyclomaticComplexity :: "node \<Rightarrow> nat" where
  "calculateCyclomaticComplexity n =
     doWhile (\<lambda>c complexity.
                if List.member incrementingNodes (cursorNodeType c)
                then complexity + 1 else complexity)
             (walk n) 1"

definition countMethods :: "node \<Rightarrow> nat" where
  "countMethods n =
     doWhile (\<lambda>c methodCount.
                if cursorNodeType c = ''function_definition''
                then methodCount + 1 else methodCount)
             (walk n) 0"

lemma lookupField_size:
  "lookupField name cs = Some b \<Longrightarrow>
     size b < Suc (size_list (size_prod (\<lambda>x. 0) size) cs)"
  by (induction cs) (auto split: if_splits)

text \<open>
  The inner loop of the inheritance depth,
  \<open>while (baseClass) { depth++; baseClass = baseClass.childForFieldName('base_class') }\<close>,
  started on the node's own \<open>base_class\<close> child.
\<close>

function baseClassChain :: "node \<Rightarrow> nat" where
  "baseClassChain (Node t src r cs) =
     (case lookupField ''base_class'' cs of
        None \<Rightarrow> 0
      | Some baseClass \<Rightarrow> Suc (baseClassChain baseClass))"
  by pat_completeness auto
termination
  by (relation "measure size") (auto dest: lookupField_size)

definition calculateInheritanceDepth :: "node \<Rightarrow> nat" where
  "calculateInheritanceDepth n =
     doWhile (\<lambda>c maxDepth.
                if cursorNodeType c = ''class_specifier''
                then max maxDepth (baseClassChain (currentNode c)) else maxDepth)
             (walk n) 0"

text \<open>The set of dependencies is kept as a list without repetitions; its size is the
  coupling count.\<close>

definition calculateCoupling :: "node \<Rightarrow> nat" where
  "calculateCoupling n =
     length
       (doWhile (\<lambda>c dependencies.
                   if List.member [''qualified_identifier'', ''field_expression'',
                                   ''call_expression''] (cursorNodeType c)
                   then (let text = nodeText (currentNode c)
                         in if \<not> startsWith text ''std::''
                            then List.insert (beforeScope text) dependencies
                            else dependencies)
                   else dependencies)
                (walk n) [])"

text \<open>\<open>x?.text || fallback\<close>: the fallback stands in for a missing child and for an
  empty text alike.\<close>

definition textOr :: "string \<Rightarrow> node option \<Rightarrow> string" where
  "textOr fallback x =
     (case x of
        None \<Rightarrow> fallback
      | Some k \<Rightarrow> (if nodeText k = [] then fallback else nodeText k))"

record cohesionPass =
  methods :: "string list"
  fieldAccesses :: "string \<rightharpoonup> string set"

text \<open>\<open>methods[methods.length - 1]\<close>, undefined on the empty array.\<close>

definition lastMethod :: "string list \<Rightarrow> string option" where
  "lastMethod ms = (if ms = [] then None else Some (last ms))"

definition cohesionVisit :: "cursor \<Rightarrow> cohesionPass \<Rightarrow> cohesionPass" where
  "cohesionVisit c st =
     (if cursorNodeType c = ''function_definition'' then
        (let methodName = textOr [] (childForFieldName (currentNode c) ''declarator'')
         in st\<lparr>methods := methods st @ [methodName],
               fieldAccesses := (fieldAccesses st)(methodName \<mapsto> {})\<rparr>)
      else if cursorNodeType c = ''field_expression'' then
        (let fieldName = textOr [] (childForFieldName (currentNode c) ''field'')
         in case lastMethod (methods st) of
              None \<Rightarrow> st
            | Some currentMethod \<Rightarrow>
                if currentMethod \<noteq> [] \<and> fieldName \<noteq> [] then
                  (case fieldAccesses st currentMethod of
                     None \<Rightarrow> st
                   | Some accessed \<Rightarrow>
                       st\<lparr>fieldAccesses :=
                            (fieldAccesses st)(currentMethod \<mapsto> insert fieldName accessed)\<rparr>)
                else st)
      else st)"

text \<open>The index pairs \<open>i < j\<close> of the two nested loops, in the order the loops reach them.\<close>

fun methodPairList :: "string list \<Rightarrow> (string \<times> string) list" where
  "methodPairList [] = []"
| "methodPairList (m # ms) = map (Pair m) ms @ methodPairList ms"

text \<open>\<open>fieldAccesses.get(m) || new Set()\<close>, and whether two methods share a field.\<close>

definition fieldsOf :: "(string \<rightharpoonup> string set) \<Rightarrow> string \<Rightarrow> string set" where
  "fieldsOf fa m = (case fa m of None \<Rightarrow> {} | Some accessed \<Rightarrow> accessed)"

definition sharesField :: "(string \<rightharpoonup> string set) \<Rightarrow> string \<times> string \<Rightarrow> bool" where
  "sharesField fa p = (fieldsOf fa (fst p) \<inter> fieldsOf fa (snd p) \<noteq> {})"

definition cohesionOf :: "cohesionPass \<Rightarrow> real" where
  "cohesionOf st =
     (let methodPairs = length (methodPairList (methods st));
          connectedPairs = length (filter (sharesField (fieldAccesses st))
                                          (methodPairList (methods st)))
      in if methodPairs > 0 then real connectedPairs / real methodPairs else 1)"

definition calculateCohesion :: "node \<Rightarrow> real" where
  "calculateCohesion n =
     cohesionOf (doWhile cohesionVisit (walk n) \<lparr>methods = [], fieldAccesses = Map.empty\<rparr>)"

section \<open>Findings and results\<close>

datatype codeSmellType =
  LongFunction | LargeClass | DuplicateCode | PrimitiveObsession | LongParameterList
| InappropriateIntimacy | GlobalVariables | ComplexCondition | DeepNesting

datatype severity = Low | Medium | High

record codeSmell =
  smellId :: string
  smellType :: codeSmellType
  smellFile :: string
  lineNumber :: nat
  endLineNumber :: "nat option"
  codeSnippet :: string
  entityName :: string
  description :: string
  refactoringTip :: string
  severity :: severity
  smellMetrics :: "codeMetrics option"

record analysisResult =
  fileName :: string
  fileSize :: nat
  smells :: "codeSmell list"
  totalSmells :: nat
  timestamp :: nat
  metrics :: codeMetrics

text \<open>
  Every finding is pushed as \<open>smells.push({ id: uuidv4(), ... })\<close>: the detectors draw one
  fresh identity per finding, in the order of the pushes. The detectors below build
  their findings with an empty identity; \<open>stamp\<close> then gives the k-th finding the k-th
  identity drawn during the detector's run.
\<close>

type_synonym uuidSource = "nat \<Rightarrow> string"

definition stamp :: "uuidSource \<Rightarrow> codeSmell list \<Rightarrow> codeSmell list" where
  "stamp ids found = map (\<lambda>(k, s). s\<lparr>smellId := ids k\<rparr>) (zip [0..<length found] found)"

text \<open>
  What the engine takes from its libraries: the parser (\<open>None\<close> when the call throws),
  the nodes that \<open>ast.walk({ enter })\<close> hands to its \<open>enter\<close> callback, in order, and the
  successive matches of a global pattern on a text, as the loop
  \<open>while ((match = regex.exec(text)) !== null)\<close> sees them.
\<close>

text \<open>
  The patterns of the lexical detectors, under the names used below:
  \<^item> \<open>FunctionSignature\<close>, in the long-parameter-list and the primitive-obsession
    detector: \<^verbatim>\<open>/(\w+)\s+(\w+)\s*\(([^)]*)\)/g\<close>;
  \<^item> \<open>GlobalDeclaration\<close>:
    \<^verbatim>\<open>/^(?:const|static)?\s*\w+\s+(\w+)\s*(?:=\s*[^;]+)?;/gm\<close>;
  \<^item> \<open>FunctionWithBody\<close>, the signature followed by
    \<^verbatim>\<open>\s*(?:const)?\s*{([^{}]*(?:{[^{}]*(?:{[^{}]*}[^{}]*)*}[^{}]*)*)}\<close>,
    a body with at most two levels of nested braces;
  \<^item> \<open>ClassWithBody\<close>:
    \<^verbatim>\<open>/class\s+(\w+)(?:\s*:\s*(?:public|protected|private)\s+\w+)?\s*{(...)}/g\<close>
    with the same body pattern;
  \<^item> \<open>MemberAccess\<close> and \<open>PointerAccess\<close>: \<^verbatim>\<open>/(\w+)\.(\w+)/g\<close> and
    \<^verbatim>\<open>/(\w+)->(\w+)/g\<close>;
  \<^item> \<open>IfCondition\<close>: \<^verbatim>\<open>/if\s*\((.*?)\)/g\<close>;
  \<^item> \<open>OperatorToken\<close>: \<^verbatim>\<open>/&&|\|\||!|==|!=|>=|<=|>|</g\<close>.
  Each pattern is created anew by the call that uses it, so every scan starts at the
  beginning of its text.
\<close>

datatype regex =
  FunctionSignature | GlobalDeclaration | FunctionWithBody | ClassWithBody
| MemberAccess | PointerAccess | IfCondition | OperatorToken

record rmatch =
  matchIndex :: nat
  matchGroups :: "string list"

text \<open>The k-th capture group of a match, group 0 being the whole match.\<close>

definition grp :: "rmatch \<Rightarrow> nat \<Rightarrow> string" where
  "grp m k = (if k < length (matchGroups m) then matchGroups m ! k else [])"

record engine =
  parse :: "string \<Rightarrow> node option"
  walkEnter :: "node \<Rightarrow> node list"
  regexExec :: "regex \<Rightarrow> string \<Rightarrow> rmatch list"

text \<open>\<open>content.substring(0, match.index).split(newline).length\<close>.\<close>

definition lineOfIndex :: "string \<Rightarrow> nat \<Rightarrow> nat" where
  "lineOfIndex content i = lineCount (take i content)"

section \<open>Structural smell detectors\<close>

text \<open>The \<open>enter\<close> callback of the long-function detector, run on one node with the
  findings pushed so far.\<close>

definition longFunctionEnter :: "string \<Rightarrow> node \<Rightarrow> codeSmell list \<Rightarrow> codeSmell list" where
  \<open>longFunctionEnter file node found =
     (if nodeType node = ''function_definition'' then
        (let functionName = textOr ''anonymous'' (childForFieldName node ''declarator'')
         in case childForFieldName node ''body'' of
              None \<Rightarrow> found
            | Some body \<Rightarrow>
                (let lines = splitChar newline (nodeText body);
                     startLine = startRow node + 1
                 in if length lines > 20 then
                      found @
                      [\<lparr>smellId = [],
                        smellType = LongFunction,
                        smellFile = file,
                        lineNumber = startLine,
                        endLineNumber = Some (startLine + length lines),
                        codeSnippet = take 500 (nodeText node)
                                      @ (if length (nodeText node) > 500 then ''...'' else []),
                        entityName = functionName,
                        description = ''Function "'' @ functionName @ ''" is too long (''
                                      @ showNat (length lines) @ '' lines)'',
                        refactoringTip = ''Consider breaking this function into smaller, more focused functions that each handle a specific task.'',
                        severity = (if length lines > 40 then High
                                    else if length lines > 30 then Medium
                                    else Low),
                        smellMetrics =
                          Some \<lparr>cyclomaticComplexity = calculateCyclomaticComplexity node,
                                linesOfCode = length lines,
                                methodCount = 1,
                                inheritanceDepth = 0,
                                couplingCount = calculateCoupling node,
                                cohesionScore = 1\<rparr>\<rparr>]
                    else found))
      else found)\<close>

definition detectLongFunctions ::
  "engine \<Rightarrow> uuidSource \<Rightarrow> string \<Rightarrow> string \<Rightarrow> node \<Rightarrow> codeSmell list" where
  "detectLongFunctions e ids content file ast =
     stamp ids (fold (longFunctionEnter file) (walkEnter e ast) [])"

definition largeClassEnter :: "string \<Rightarrow> node \<Rightarrow> codeSmell list \<Rightarrow> codeSmell list" where
  \<open>largeClassEnter file node found =
     (if nodeType node = ''class_specifier'' then
        (let className = textOr ''anonymous'' (childForFieldName node ''name'')
         in case childForFieldName node ''body'' of
              None \<Rightarrow> found
            | Some body \<Rightarrow>
                (let lines = splitChar newline (nodeText body);
                     methodCount = countMethods node;
                     inheritanceDepth = calculateInheritanceDepth node
                 in if length lines > 200 \<or> methodCount > 10 then
                      found @
                      [\<lparr>smellId = [],
                        smellType = LargeClass,
                        smellFile = file,
                        lineNumber = startRow node + 1,
                        endLineNumber = None,
                        codeSnippet = className @ '' { ... }'',
                        entityName = className,
                        description = ''Class "'' @ className @ ''" is too large (''
                                      @ showNat (length lines) @ '' lines, ''
                                      @ showNat methodCount @ '' methods)'',
                        refactoringTip = ''Consider using composition or splitting this class into smaller, more focused classes that follow the Single Responsibility Principle.'',
                        severity = (if length lines > 500 \<or> methodCount > 20
                                    then High else Medium),
                        smellMetrics =
                          Some \<lparr>cyclomaticComplexity = calculateCyclomaticComplexity node,
                                linesOfCode = length lines,
                                methodCount = methodCount,
                                inheritanceDepth = inheritanceDepth,
                                couplingCount = calculateCoupling node,
                                cohesionScore = calculateCohesion node\<rparr>\<rparr>]
                    else found))
      else found)\<close>

definition detectLargeClasses ::
  "engine \<Rightarrow> uuidSource \<Rightarrow> string \<Rightarrow> string \<Rightarrow> node \<Rightarrow> codeSmell list" where
  "detectLargeClasses e ids content file ast =
     stamp ids (fold (largeClassEnter file) (walkEnter e ast) [])"

section \<open>Lexical smell detectors\<close>

text \<open>
  Each lexical detector loops over the successive matches of its pattern on the text.
  The body of each loop is a step function from the findings pushed so far (and the
  loop's other variables) to the new ones. In the function signature pattern group 1 is
  the return type, group 2 the name and group 3 the parameter text; the pattern of a
  function with its body adds the body as group 4.
\<close>

definition longParameterListStep ::
  "string \<Rightarrow> string \<Rightarrow> rmatch \<Rightarrow> codeSmell list \<Rightarrow> codeSmell list" where
  \<open>longParameterListStep content file m found =
     (let fullMatch = grp m 0;
          functionName = grp m 2;
          params = grp m 3;
          paramCount = length (filter (\<lambda>param. length (trim param) > 0)
                                      (splitChar CHR '','' params))
      in if paramCount > 4 then
           found @
           [\<lparr>smellId = [],
             smellType = LongParameterList,
             smellFile = file,
             lineNumber = lineOfIndex content (matchIndex m),
             endLineNumber = None,
             codeSnippet = fullMatch,
             entityName = functionName,
             description = ''Function "'' @ functionName @ ''" has too many parameters (''
                           @ showNat paramCount @ '')'',
             refactoringTip = ''Consider grouping related parameters into objects or using the Parameter Object pattern.'',
             severity = (if paramCount > 7 then High
                         else if paramCount > 5 then Medium else Low),
             smellMetrics = None\<rparr>]
         else found)\<close>

definition detectLongParameterLists ::
  "engine \<Rightarrow> uuidSource \<Rightarrow> string \<Rightarrow> string \<Rightarrow> codeSmell list" where
  "detectLongParameterLists e ids content file =
     stamp ids (fold (longParameterListStep content file)
                     (regexExec e FunctionSignature content) [])"

text \<open>The number of occurrences of a character: \<open>(s.match(/c/g) || []).length\<close>.\<close>

definition countChar :: "char \<Rightarrow> string \<Rightarrow> int" where
  "countChar c s = int (length (filter (\<lambda>x. x = c) s))"

definition globalVariableStep ::
  "string \<Rightarrow> string \<Rightarrow> rmatch \<Rightarrow> codeSmell list \<Rightarrow> codeSmell list" where
  \<open>globalVariableStep content file m found =
     (let beforeMatch = take (matchIndex m) content;
          braceCount = countChar CHR ''{'' beforeMatch - countChar CHR ''}'' beforeMatch
      in if braceCount = 0 then
           (let fullMatch = grp m 0;
                varName = grp m 1
            in found @
               [\<lparr>smellId = [],
                 smellType = GlobalVariables,
                 smellFile = file,
                 lineNumber = lineOfIndex content (matchIndex m),
                 endLineNumber = None,
                 codeSnippet = fullMatch,
                 entityName = varName,
                 description = ''Global variable "'' @ varName @ ''" detected'',
                 refactoringTip = ''Consider encapsulating global state in classes or using the Singleton pattern if appropriate.'',
                 severity = Medium,
                 smellMetrics = None\<rparr>])
         else found)\<close>

definition detectGlobalVariables ::
  "engine \<Rightarrow> uuidSource \<Rightarrow> string \<Rightarrow> string \<Rightarrow> codeSmell list" where
  "detectGlobalVariables e ids content file =
     stamp ids (fold (globalVariableStep content file)
                     (regexExec e GlobalDeclaration content) [])"

text \<open>The duplicate-code detector keeps a map from normalized bodies to the first function
  seen with that body.\<close>

record seenFunction =
  seenName :: string
  seenLine :: nat
  seenCode :: string

type_synonym duplicatePass = "(string \<rightharpoonup> seenFunction) \<times> codeSmell list"

definition duplicateCodeStep ::
  "string \<Rightarrow> string \<Rightarrow> rmatch \<Rightarrow> duplicatePass \<Rightarrow> duplicatePass" where
  \<open>duplicateCodeStep content file m pass =
     (let functionBodies = fst pass;
          found = snd pass;
          functionName = grp m 2;
          body = grp m 4;
          normalizedBody = normalizeBody body
      in if length normalizedBody > 100 then
           (let lineNumber = lineOfIndex content (matchIndex m)
            in case functionBodies normalizedBody of
                 Some original \<Rightarrow>
                   (functionBodies,
                    found @
                    [\<lparr>smellId = [],
                      smellType = DuplicateCode,
                      smellFile = file,
                      lineNumber = lineNumber,
                      endLineNumber = None,
                      codeSnippet = functionName @ ''(...) { ... }'',
                      entityName = functionName,
                      description = ''Function "'' @ functionName
                                    @ ''" contains code duplicated from "''
                                    @ seenName original @ ''" (line ''
                                    @ showNat (seenLine original) @ '')'',
                      refactoringTip = ''Extract the duplicated code into a shared function that can be called from both places.'',
                      severity = High,
                      smellMetrics = None\<rparr>])
               | None \<Rightarrow>
                   (functionBodies(normalizedBody \<mapsto>
                      \<lparr>seenName = functionName, seenLine = lineNumber,
                       seenCode = normalizedBody\<rparr>),
                    found))
         else pass)\<close>

definition detectDuplicateCode ::
  "engine \<Rightarrow> uuidSource \<Rightarrow> string \<Rightarrow> string \<Rightarrow> codeSmell list" where
  "detectDuplicateCode e ids content file =
     stamp ids (snd (fold (duplicateCodeStep content file)
                          (regexExec e FunctionWithBody content) (Map.empty, [])))"

text \<open>A parameter is suspicious when its name ends in a domain suffix and its text
  mentions a primitive type.\<close>

definition suspiciousParam :: "string \<Rightarrow> bool" where
  "suspiciousParam param =
     (let paramParts = splitChar CHR '' '' param;
          paramName = removeFirst CHR ''&'' (removeFirst CHR ''*'' (last paramParts))
      in list_ex (endsWith paramName)
           [''id'', ''code'', ''name'', ''address'', ''phone'', ''email'', ''date'', ''time'']
         \<and> list_ex (containsText param)
           [''int'', ''float'', ''double'', ''char'', ''bool'', ''string''])"

definition primitiveObsessionStep ::
  "string \<Rightarrow> string \<Rightarrow> rmatch \<Rightarrow> codeSmell list \<Rightarrow> codeSmell list" where
  \<open>primitiveObsessionStep content file m found =
     (let fullMatch = grp m 0;
          methodName = grp m 2;
          params = grp m 3;
          paramList = map trim (splitChar CHR '','' params);
          suspiciousParams = filter suspiciousParam paramList
      in if length suspiciousParams \<ge> 2 then
           found @
           [\<lparr>smellId = [],
             smellType = PrimitiveObsession,
             smellFile = file,
             lineNumber = lineOfIndex content (matchIndex m),
             endLineNumber = None,
             codeSnippet = fullMatch,
             entityName = methodName,
             description = ''Function "'' @ methodName
                           @ ''" uses multiple primitive types that could be an object'',
             refactoringTip = ''Consider creating a class to encapsulate related primitive values.'',
             severity = Medium,
             smellMetrics = None\<rparr>]
         else found)\<close>

definition detectPrimitiveObsession ::
  "engine \<Rightarrow> uuidSource \<Rightarrow> string \<Rightarrow> string \<Rightarrow> codeSmell list" where
  "detectPrimitiveObsession e ids content file =
     stamp ids (fold (primitiveObsessionStep content file)
                     (regexExec e FunctionSignature content) [])"

text \<open>The access counts of one class body: a map that keeps the order in which its keys
  were first set. \<open>classReferences.set(k, (classReferences.get(k) || 0) + 1)\<close>:\<close>

fun bumpCount :: "string \<Rightarrow> (string \<times> nat) list \<Rightarrow> (string \<times> nat) list" where
  "bumpCount k [] = [(k, 1)]"
| "bumpCount k ((k', c) # rest) =
     (if k' = k then (k', c + 1) # rest else (k', c) # bumpCount k rest)"

definition countAccess :: "rmatch \<Rightarrow> (string \<times> nat) list \<Rightarrow> (string \<times> nat) list" where
  "countAccess accessMatch classReferences =
     (let objName = grp accessMatch 1
      in if objName \<noteq> ''this'' \<and> objName \<noteq> ''std'' \<and> objName \<noteq> ''string''
         then bumpCount objName classReferences else classReferences)"

definition inappropriateIntimacyStep ::
  "engine \<Rightarrow> string \<Rightarrow> string \<Rightarrow> rmatch \<Rightarrow> codeSmell list \<Rightarrow> codeSmell list" where
  \<open>inappropriateIntimacyStep e content file m found =
     (let className = grp m 1;
          body = grp m 2;
          classReferences =
            fold countAccess (regexExec e PointerAccess body)
              (fold countAccess (regexExec e MemberAccess body) [])
      in found @
         map (\<lambda>(referencedClass, count).
                \<lparr>smellId = [],
                 smellType = InappropriateIntimacy,
                 smellFile = file,
                 lineNumber = lineOfIndex content (matchIndex m),
                 endLineNumber = None,
                 codeSnippet = ''class '' @ className @ '' { ... }'',
                 entityName = className,
                 description = ''Class "'' @ className
                               @ ''" has inappropriate intimacy with "'' @ referencedClass
                               @ ''" ('' @ showNat count @ '' accesses)'',
                 refactoringTip = ''Consider moving some functionality or creating an intermediary class to reduce coupling.'',
                 severity = (if count > 10 then High else Medium),
                 smellMetrics = None\<rparr>)
             (filter (\<lambda>(referencedClass, count). count > 5) classReferences))\<close>

definition detectInappropriateIntimacy ::
  "engine \<Rightarrow> uuidSource \<Rightarrow> string \<Rightarrow> string \<Rightarrow> codeSmell list" where
  "detectInappropriateIntimacy e ids content file =
     stamp ids (fold (inappropriateIntimacyStep e content file)
                     (regexExec e ClassWithBody content) [])"

definition complexConditionStep ::
  "engine \<Rightarrow> string \<Rightarrow> string \<Rightarrow> rmatch \<Rightarrow> codeSmell list \<Rightarrow> codeSmell list" where
  \<open>complexConditionStep e content file m found =
     (let fullMatch = grp m 0;
          condition = grp m 1;
          operatorCount = length (regexExec e OperatorToken condition);
          lineNumber = lineOfIndex content (matchIndex m)
      in if operatorCount > 3 then
           found @
           [\<lparr>smellId = [],
             smellType = ComplexCondition,
             smellFile = file,
             lineNumber = lineNumber,
             endLineNumber = None,
             codeSnippet = fullMatch,
             entityName = ''condition'',
             description = ''Complex condition with '' @ showNat operatorCount
                           @ '' operators'',
             refactoringTip = ''Break the condition into smaller, well-named boolean variables or methods.'',
             severity = (if operatorCount > 5 then High else Medium),
             smellMetrics = None\<rparr>]
         else found)\<close>

definition detectComplexConditions ::
  "engine \<Rightarrow> uuidSource \<Rightarrow> string \<Rightarrow> string \<Rightarrow> codeSmell list" where
  "detectComplexConditions e ids content file =
     stamp ids (fold (complexConditionStep e content file)
                     (regexExec e IfCondition content) [])"

text \<open>The deep-nesting detector scans the lines with three counters.\<close>

record nesting =
  currentNestingLevel :: int
  maxNestingLevel :: int
  nestingStartLine :: nat
  nestingSmells :: "codeSmell list"

definition deepNestingSmell :: "string \<Rightarrow> nesting \<Rightarrow> codeSmell" where
  "deepNestingSmell file st =
     \<lparr>smellId = [],
      smellType = DeepNesting,
      smellFile = file,
      lineNumber = nestingStartLine st,
      endLineNumber = None,
      codeSnippet = ''Nested block { ... }'',
      entityName = ''nested_block'',
      description = ''Deep nesting detected ('' @ showNat (nat (maxNestingLevel st))
                    @ '' levels)'',
      refactoringTip = ''Consider using early returns, guard clauses, or extracting nested logic into separate methods.'',
      severity = (if maxNestingLevel st > 4 then High else Medium),
      smellMetrics = None\<rparr>"

definition openBrace :: "nat \<Rightarrow> nesting \<Rightarrow> nesting" where
  "openBrace i st =
     (let level = currentNestingLevel st + 1
      in if level > maxNestingLevel st
         then st\<lparr>currentNestingLevel := level, maxNestingLevel := level,
                 nestingStartLine := i + 1\<rparr>
         else st\<lparr>currentNestingLevel := level\<rparr>)"

definition closeBrace :: "string \<Rightarrow> nesting \<Rightarrow> nesting" where
  "closeBrace file st =
     (let reported =
            (if currentNestingLevel st = maxNestingLevel st \<and> maxNestingLevel st > 3
             then st\<lparr>nestingSmells := nestingSmells st @ [deepNestingSmell file st]\<rparr>
             else st);
          left = reported\<lparr>currentNestingLevel := currentNestingLevel reported - 1\<rparr>
      in if currentNestingLevel left = 0 then left\<lparr>maxNestingLevel := 0\<rparr> else left)"

definition nestingStep :: "string \<Rightarrow> nat \<Rightarrow> string \<Rightarrow> nesting \<Rightarrow> nesting" where
  "nestingStep file i rawLine st =
     (let line = trim rawLine;
          opened = (if includesChar line CHR ''{'' then openBrace i st else st)
      in if includesChar line CHR ''}'' then closeBrace file opened else opened)"

fun nestingLoop :: "string \<Rightarrow> nat \<Rightarrow> string list \<Rightarrow> nesting \<Rightarrow> nesting" where
  "nestingLoop file i [] st = st"
| "nestingLoop file i (rawLine # rest) st =
     nestingLoop file (Suc i) rest (nestingStep file i rawLine st)"

definition detectDeepNesting :: "uuidSource \<Rightarrow> string \<Rightarrow> string \<Rightarrow> codeSmell list" where
  "detectDeepNesting ids content file =
     stamp ids
       (nestingSmells
          (nestingLoop file 0 (splitChar newline content)
             \<lparr>currentNestingLevel = 0, maxNestingLevel = 0, nestingStartLine = 0,
              nestingSmells = []\<rparr>))"

section \<open>Analysis orchestrator and content cache\<close>

text \<open>
  The module keeps two pieces of state between calls: the content cache
  \<open>fileContentStore\<close> and the parser singleton, of which only the flag \<open>initialized\<close>
  matters. What a call draws from outside is collected in a \<open>world\<close>: the identities
  \<open>uuidv4()\<close> returns, the clock, and whether loading the grammar succeeds.
\<close>

record appState =
  fileContentStore :: "string \<rightharpoonup> string"
  initialized :: bool

record world =
  uuids :: uuidSource
  now :: nat
  grammarLoads :: bool

datatype analysisError = InitializationFailed | NotInitialized | ParserThrew

definition getInstance :: "world \<Rightarrow> appState \<Rightarrow> (analysisError + unit) \<times> appState" where
  "getInstance w st =
     (if \<not> initialized st then
        (if grammarLoads w then (Inr (), st\<lparr>initialized := True\<rparr>)
         else (Inl InitializationFailed, st))
      else (Inr (), st))"

definition parseCode :: "engine \<Rightarrow> appState \<Rightarrow> string \<Rightarrow> analysisError + node" where
  "parseCode e st code =
     (if \<not> initialized st then Inl NotInitialized
      else (case parse e code of None \<Rightarrow> Inl ParserThrew | Some rootNode \<Rightarrow> Inr rootNode))"

definition calculateMetrics :: "engine \<Rightarrow> appState \<Rightarrow> string \<Rightarrow> analysisError + codeMetrics" where
  "calculateMetrics e st code =
     (case parseCode e st code of
        Inl err \<Rightarrow> Inl err
      | Inr rootNode \<Rightarrow>
          Inr \<lparr>cyclomaticComplexity = calculateCyclomaticComplexity rootNode,
               linesOfCode = lineCount code,
               methodCount = countMethods rootNode,
               inheritanceDepth = calculateInheritanceDepth rootNode,
               couplingCount = calculateCoupling rootNode,
               cohesionScore = calculateCohesion rootNode\<rparr>)"

text \<open>The findings of the detectors are spread into one array in the order the detectors
  are listed; a detector draws its identities after those of the detectors before it.
  The two structural detectors ask for the parser instance once more; by then it is
  initialized, so the call changes nothing.\<close>

definition thenDetect ::
  "uuidSource \<Rightarrow> codeSmell list \<Rightarrow> (uuidSource \<Rightarrow> codeSmell list) \<Rightarrow> codeSmell list" where
  "thenDetect ids found detector = found @ detector (\<lambda>k. ids (length found + k))"

definition allSmells :: "engine \<Rightarrow> uuidSource \<Rightarrow> string \<Rightarrow> string \<Rightarrow> node \<Rightarrow> codeSmell list" where
  "allSmells e ids content file rootNode =
     foldl (thenDetect ids) []
       [\<lambda>ids'. detectLongFunctions e ids' content file rootNode,
        \<lambda>ids'. detectLargeClasses e ids' content file rootNode,
        \<lambda>ids'. detectLongParameterLists e ids' content file,
        \<lambda>ids'. detectGlobalVariables e ids' content file,
        \<lambda>ids'. detectDuplicateCode e ids' content file,
        \<lambda>ids'. detectPrimitiveObsession e ids' content file,
        \<lambda>ids'. detectInappropriateIntimacy e ids' content file,
        \<lambda>ids'. detectComplexConditions e ids' content file,
        \<lambda>ids'. detectDeepNesting ids' content file]"

definition analyzeCode ::
  "engine \<Rightarrow> world \<Rightarrow> appState \<Rightarrow> string \<Rightarrow> string
     \<Rightarrow> (analysisError + analysisResult) \<times> appState" where
  "analyzeCode e w st content file =
     (let stored = st\<lparr>fileContentStore := (fileContentStore st)(file \<mapsto> content)\<rparr>
      in case getInstance w stored of
           (Inl err, st') \<Rightarrow> (Inl err, st')
         | (Inr parser, st') \<Rightarrow>
             (case parseCode e st' content of
                Inl err \<Rightarrow> (Inl err, st')
              | Inr rootNode \<Rightarrow>
                  (case calculateMetrics e st' content of
                     Inl err \<Rightarrow> (Inl err, st')
                   | Inr fileMetrics \<Rightarrow>
                       (let found = allSmells e (uuids w) content file rootNode
                        in (Inr \<lparr>fileName = file,
                                 fileSize = length content,
                                 smells = found,
                                 totalSmells = length found,
                                 timestamp = now w,
                                 metrics = fileMetrics\<rparr>,
                            st')))))"

text \<open>\<open>fileContentStore.get(fileName) || '// File content not available'\<close>: the placeholder
  stands in for a missing entry and for an empty text alike.\<close>

definition getFileContent :: "appState \<Rightarrow> string \<Rightarrow> string" where
  "getFileContent st file =
     (case fileContentStore st file of
        None \<Rightarrow> ''// File content not available''
      | Some content \<Rightarrow>
          (if content = [] then ''// File content not available'' else content))"

section \<open>Aggregator\<close>

text \<open>
  \<open>smellsByFile\<close> is a plain object used as a dictionary. Its own string keys are kept in
  the order of their first assignment; assigning a number to the key \<open>__proto__\<close>
  creates no property.
\<close>

type_synonym dictionary = "(string \<times> nat) list"

fun updateEntry :: "string \<Rightarrow> nat \<Rightarrow> dictionary \<Rightarrow> dictionary" where
  "updateEntry k v [] = [(k, v)]"
| "updateEntry k v ((k', v') # rest) =
     (if k' = k then (k, v) # rest else (k', v') # updateEntry k v rest)"

definition assign :: "string \<Rightarrow> nat \<Rightarrow> dictionary \<Rightarrow> dictionary" where
  "assign k v obj = (if k = ''__proto__'' then obj else updateEntry k v obj)"

text \<open>
  \<open>Object.entries\<close> lists the keys that are array indices first, in ascending numeric
  order, then the other keys in the order of their creation. An array index is the
  canonical decimal form of a number below \<open>2^32 - 1\<close>.
\<close>

definition isDigit :: "char \<Rightarrow> bool" where
  "isDigit c = List.member ''0123456789'' c"

definition digitsValue :: "string \<Rightarrow> nat" where
  "digitsValue s = foldl (\<lambda>acc c. 10 * acc + (of_char c - 48)) 0 s"

definition arrayIndex :: "string \<Rightarrow> nat option" where
  "arrayIndex s =
     (if s \<noteq> [] \<and> list_all isDigit s \<and> (s = ''0'' \<or> hd s \<noteq> CHR ''0'')
         \<and> digitsValue s < 4294967295
      then Some (digitsValue s) else None)"

definition indexValue :: "string \<times> nat \<Rightarrow> nat" where
  "indexValue kv = (case arrayIndex (fst kv) of None \<Rightarrow> 0 | Some i \<Rightarrow> i)"

definition objectEntries :: "dictionary \<Rightarrow> dictionary" where
  "objectEntries obj =
     sort_key indexValue (filter (\<lambda>kv. arrayIndex (fst kv) \<noteq> None) obj)
     @ filter (\<lambda>kv. arrayIndex (fst kv) = None) obj"

text \<open>
  \<open>Array.prototype.sort\<close> with a comparator is a stable sort: elements the comparator
  does not separate keep their order. Inserting each element in front of the first one
  it does not have to follow computes it.
\<close>

fun insertWith :: "('a \<Rightarrow> 'a \<Rightarrow> int) \<Rightarrow> 'a \<Rightarrow> 'a list \<Rightarrow> 'a list" where
  "insertWith cmp x [] = [x]"
| "insertWith cmp x (y # ys) =
     (if cmp x y \<le> 0 then x # y # ys else y # insertWith cmp x ys)"

definition sortWith :: "('a \<Rightarrow> 'a \<Rightarrow> int) \<Rightarrow> 'a list \<Rightarrow> 'a list" where
  "sortWith cmp xs = foldr (insertWith cmp) xs []"

record worstFile =
  worstFileName :: string
  smellCount :: nat

text \<open>A number that a division may have produced.\<close>

datatype number = Num real | PosInfinity | NegInfinity | NaN

definition divideBy :: "real \<Rightarrow> nat \<Rightarrow> number" where
  "divideBy x n =
     (if n \<noteq> 0 then Num (x / real n)
      else if x = 0 then NaN
      else if x > 0 then PosInfinity else NegInfinity)"

record averagedMetrics =
  avgCyclomaticComplexity :: number
  avgLinesOfCode :: number
  avgMethodCount :: number
  avgInheritanceDepth :: number
  avgCouplingCount :: number
  avgCohesionScore :: number

text \<open>The statistics of a batch; \<open>corpusTotalSmells\<close> is the field \<open>totalSmells\<close> of the
  statistics, named apart from the field of a file's result.\<close>

record analysisStats =
  totalFiles :: nat
  corpusTotalSmells :: nat
  smellsByType :: "codeSmellType \<Rightarrow> nat"
  smellsByFile :: dictionary
  worstFiles :: "worstFile list"
  averageMetrics :: averagedMetrics

record tally =
  byType :: "codeSmellType \<Rightarrow> nat"
  byFile :: dictionary

definition tallyResult :: "analysisResult \<Rightarrow> tally \<Rightarrow> tally" where
  "tallyResult result t =
     \<lparr>byType = fold (\<lambda>smell counts. counts(smellType smell := counts (smellType smell) + 1))
                     (smells result) (byType t),
      byFile = assign (fileName result) (totalSmells result) (byFile t)\<rparr>"

text \<open>One field of the metrics summed over the results, as the \<open>reduce\<close> accumulates it.\<close>

definition metricSum :: "(codeMetrics \<Rightarrow> real) \<Rightarrow> analysisResult list \<Rightarrow> real" where
  "metricSum field results = foldl (\<lambda>acc result. acc + field (metrics result)) 0 results"

definition calculateStats :: "analysisResult list \<Rightarrow> analysisStats" where
  "calculateStats results =
     (let files = length results;
          total = foldl (\<lambda>sum result. sum + totalSmells result) 0 results;
          counted = fold tallyResult results \<lparr>byType = (\<lambda>t. 0), byFile = []\<rparr>;
          worst = take 5
                    (sortWith (\<lambda>a b. int (smellCount b) - int (smellCount a))
                       (map (\<lambda>(name, count). \<lparr>worstFileName = name, smellCount = count\<rparr>)
                            (objectEntries (byFile counted))))
      in \<lparr>totalFiles = files,
          corpusTotalSmells = total,
          smellsByType = byType counted,
          smellsByFile = byFile counted,
          worstFiles = worst,
          averageMetrics =
            \<lparr>avgCyclomaticComplexity =
                 divideBy (metricSum (\<lambda>m. real (cyclomaticComplexity m)) results) files,
             avgLinesOfCode = divideBy (metricSum (\<lambda>m. real (linesOfCode m)) results) files,
             avgMethodCount = divideBy (metricSum (\<lambda>m. real (methodCount m)) results) files,
             avgInheritanceDepth =
                 divideBy (metricSum (\<lambda>m. real (inheritanceDepth m)) results) files,
             avgCouplingCount = divideBy (metricSum (\<lambda>m. real (couplingCount m)) results) files,
             avgCohesionScore = divideBy (metricSum cohesionScore results) files\<rparr>\<rparr>)"

section \<open>Reference notions and sample inputs\<close>

text \<open>
  The notions below are not part of the engine. They say in the words of the
  specification what the engine is expected to compute, or build the inputs on which
  the engine is run further down.
\<close>

subsection \<open>Syntax trees\<close>

text \<open>
  The tally the specification describes for the cyclomatic complexity: one for the node
  itself when it is a decision-introducing construct, plus the tally of every child, so
  that each node of the subtree is counted exactly once.
\<close>

fun decisionNodes :: "node \<Rightarrow> nat" where
  "decisionNodes (Node t src r cs) =
     (if List.member incrementingNodes t then 1 else 0)
     + sum_list (map (\<lambda>p. decisionNodes (snd p)) cs)"

text \<open>The methods of a unit as the specification counts them: the function-definition
  nodes at or below the node.\<close>

fun functionDefinitions :: "node \<Rightarrow> nat" where
  "functionDefinitions (Node t src r cs) =
     (if t = ''function_definition'' then 1 else 0)
     + sum_list (map (\<lambda>p. functionDefinitions (snd p)) cs)"

definition ifInsideUnit :: node where
  "ifInsideUnit =
     Node ''translation_unit'' ''if (a) b();'' 0
       [(None, Node ''if_statement'' ''if (a) b();'' 0 [])]"

definition oneMethodClass :: node where
  "oneMethodClass =
     Node ''class_specifier'' ''class A { int f() { return x; } }'' 0
       [(Some ''name'', Node ''type_identifier'' ''A'' 0 []),
        (Some ''body'', Node ''field_declaration_list'' ''{ int f() { return x; } }'' 0
           [(None, Node ''function_definition'' ''int f() { return x; }'' 0 [])])]"

subsection \<open>Texts\<close>

text \<open>Lines joined by line feeds, and a run of \<open>d\<close> blocks nested one per line.\<close>

fun joinLines :: "string list \<Rightarrow> string" where
  "joinLines [] = []"
| "joinLines [l] = l"
| "joinLines (l # ls) = l @ newline # joinLines ls"

definition nestedBlocks :: "nat \<Rightarrow> string" where
  "nestedBlocks d = joinLines (replicate d ''{'' @ replicate d ''}'')"


text \<open>
  Top-level nesting runs as the specification describes them: a running counter goes up
  on a line with an opening brace and down on a line with a closing brace; a run ends
  when the counter returns to zero, and it is deep when the maximum it recorded exceeds
  3. \<open>peak\<close> is the highest value the counter reached in the whole text.
\<close>

record runScan =
  level :: int
  runMax :: int
  peak :: int
  deepRunsSeen :: nat





text \<open>How the detector's loop and the scan of the runs go together: the detector's
  counters are those of the scan, every deep run that has ended has left a finding, and
  so has the current run once its counter is below a maximum above 3.\<close>

definition related :: "nesting \<Rightarrow> runScan \<Rightarrow> bool" where
  "related st s \<longleftrightarrow>
     currentNestingLevel st = level s \<and> maxNestingLevel st = runMax s
     \<and> level s \<le> runMax s
     \<and> deepRunsSeen s \<le> length (nestingSmells st)
     \<and> (3 < runMax s \<and> level s < runMax s \<longrightarrow>
            deepRunsSeen s + 1 \<le> length (nestingSmells st))"

subsection \<open>Long functions\<close>



definition reported :: "codeSmell \<Rightarrow> nat \<times> nat option \<times> severity" where
  "reported s = (lineNumber s, endLineNumber s, severity s)"


subsection \<open>Engines\<close>

text \<open>An engine whose walk visits the given nodes, whose parser throws and whose patterns
  never match; one whose function pattern yields the given matches; and one with a
  parser that turns any text into a bare translation unit, a walk that visits nothing
  and patterns that never match.\<close>

definition visiting :: "node list \<Rightarrow> engine" where
  "visiting nodes = \<lparr>parse = (\<lambda>code. None), walkEnter = (\<lambda>ast. nodes),
                     regexExec = (\<lambda>rx text. [])\<rparr>"


definition bareEngine :: engine where
  "bareEngine =
     \<lparr>parse = (\<lambda>code. Some (Node ''translation_unit'' code 0 [])),
      walkEnter = (\<lambda>ast. []),
      regexExec = (\<lambda>rx text. [])\<rparr>"

subsection \<open>Duplicate code\<close>






subsection \<open>Runs of the orchestrator\<close>

text \<open>A finding with its identity blanked.\<close>

definition eraseId :: "codeSmell \<Rightarrow> codeSmell" where
  "eraseId s = s\<lparr>smellId := []\<rparr>"

definition freshState :: appState where
  "freshState = \<lparr>fileContentStore = Map.empty, initialized = False\<rparr>"

definition staleState :: appState where
  "staleState = \<lparr>fileContentStore = [''a.cpp'' \<mapsto> ''int old;''], initialized = False\<rparr>"

definition readyState :: appState where
  "readyState = \<lparr>fileContentStore = [''a.cpp'' \<mapsto> ''int old;''], initialized = True\<rparr>"

definition firstWorld :: world where
  "firstWorld = \<lparr>uuids = (\<lambda>k. ''first''), now = 1, grammarLoads = True\<rparr>"

definition secondWorld :: world where
  "secondWorld = \<lparr>uuids = (\<lambda>k. ''second''), now = 2, grammarLoads = True\<rparr>"

definition offlineWorld :: world where
  "offlineWorld = \<lparr>uuids = (\<lambda>k. []), now = 3, grammarLoads = False\<rparr>"

text \<open>The same text analysed twice in a row, the second time in the state the first left.\<close>

definition firstRun :: "(analysisError + analysisResult) \<times> appState" where
  "firstRun = analyzeCode bareEngine firstWorld freshState (nestedBlocks 4) ''a.cpp''"

definition secondRun :: "(analysisError + analysisResult) \<times> appState" where
  "secondRun = analyzeCode bareEngine secondWorld (snd firstRun) (nestedBlocks 4) ''a.cpp''"

subsection \<open>Batches\<close>

definition sampleSmell :: "string \<Rightarrow> codeSmell" where
  "sampleSmell name =
     \<lparr>smellId = ''0'', smellType = GlobalVariables, smellFile = name, lineNumber = 1,
      endLineNumber = None, codeSnippet = ''int x;'', entityName = ''x'',
      description = [], refactoringTip = [], severity = Medium, smellMetrics = None\<rparr>"

text \<open>The result of a one-line file with \<open>n\<close> findings.\<close>

definition fileWith :: "string \<Rightarrow> nat \<Rightarrow> analysisResult" where
  "fileWith name n =
     \<lparr>fileName = name, fileSize = 0, smells = replicate n (sampleSmell name), totalSmells = n,
      timestamp = 0,
      metrics = \<lparr>cyclomaticComplexity = 1, linesOfCode = 1, methodCount = 0,
                 inheritanceDepth = 0, couplingCount = 0, cohesionScore = 1\<rparr>\<rparr>"

definition tiedBatch :: "analysisResult list" where
  "tiedBatch =
     [fileWith ''a.cpp'' 5, fileWith ''b.cpp'' 5, fileWith ''c.cpp'' 3, fileWith ''d.cpp'' 1]"

text \<open>A result as an entry of the per-file dictionary and as an entry of the worst files.\<close>

definition entryOf :: "analysisResult \<Rightarrow> string \<times> nat" where
  "entryOf r = (fileName r, totalSmells r)"

definition worstOf :: "analysisResult \<Rightarrow> worstFile" where
  "worstOf r = \<lparr>worstFileName = fileName r, smellCount = totalSmells r\<rparr>"

text \<open>The mean of one field as the specification words it: the sum of the field over all
  results divided by the number of files.\<close>

definition meanOf :: "(codeMetrics \<Rightarrow> real) \<Rightarrow> analysisResult list \<Rightarrow> real" where
  "meanOf field rs = sum_list (map (\<lambda>r. field (metrics r)) rs) / real (length rs)"

section \<open>The cursor never descends\<close>

text \<open>
  The loops of the metrics calculator move the cursor to the next sibling or to the
  parent's next sibling, and never to a child. Started at the cursor's root, the first
  advance fails and the loop body has run once, on the root.
\<close>

lemma advance_walk: "advance (walk n) = (False, walk n)"
  by (simp add: advance_def walk_def gotoNextSibling_def gotoParent_def)

lemma doWhile_walk: "doWhile body (walk n) s = body (walk n) s"
  by (subst doWhile.simps) (simp add: advance_walk)

lemma calculateCyclomaticComplexity_root_only:
  "calculateCyclomaticComplexity n =
     (if List.member incrementingNodes (nodeType n) then 2 else 1)"
  by (simp add: calculateCyclomaticComplexity_def doWhile_walk cursorNodeType_def)
     (simp add: walk_def)

text \<open>
  C1. The claim: the complexity of a node is 1 plus the number of decision-introducing
  constructs among all nodes below it, each visited once. On a translation unit whose
  only child is an \<open>if\<close> statement the tally of the specification is 2, and the code
  returns 1: the \<open>if\<close> statement is never visited.
\<close>

theorem calculateCyclomaticComplexity_misses_child:
  "calculateCyclomaticComplexity ifInsideUnit = 1 \<and> 1 + decisionNodes ifInsideUnit = 2"
  by (simp add: calculateCyclomaticComplexity_root_only ifInsideUnit_def
                incrementingNodes_def)

section \<open>Cohesion\<close>

lemma cohesionOf_range: "0 \<le> cohesionOf st \<and> cohesionOf st \<le> 1"
proof -
  have "length (filter (sharesField (fieldAccesses st)) (methodPairList (methods st)))
          \<le> length (methodPairList (methods st))"
    by (rule length_filter_le)
  then show ?thesis
    by (simp add: cohesionOf_def Let_def divide_le_eq_1)
qed

lemma methodPairList_short: "length ms < 2 \<Longrightarrow> methodPairList ms = []"
  by (cases ms) (auto simp: less_Suc_eq_0_disj)

lemma cohesionOf_few_methods: "length (methods st) < 2 \<Longrightarrow> cohesionOf st = 1"
  by (simp add: cohesionOf_def methodPairList_short)

text \<open>The pass collects no more methods than the unit has function definitions.\<close>

lemma collected_methods_le:
  "length (methods (doWhile cohesionVisit (walk n) \<lparr>methods = [], fieldAccesses = Map.empty\<rparr>))
     \<le> functionDefinitions n"
proof (cases n)
  case (Node t src r cs)
  then show ?thesis
    by (simp add: doWhile_walk)
       (simp add: cohesionVisit_def cursorNodeType_def walk_def Let_def lastMethod_def)
qed

text \<open>
  C8. For every tree node the cohesion score lies in the closed interval from 0 to 1,
  and it is exactly 1 whenever the unit has fewer than 2 methods.
\<close>

theorem calculateCohesion_range:
  "0 \<le> calculateCohesion n \<and> calculateCohesion n \<le> 1
   \<and> (functionDefinitions n < 2 \<longrightarrow> calculateCohesion n = 1)"
proof -
  have "functionDefinitions n < 2 \<Longrightarrow> calculateCohesion n = 1"
    unfolding calculateCohesion_def
    using collected_methods_le [of n] by (intro cohesionOf_few_methods) simp
  with cohesionOf_range show ?thesis
    by (simp add: calculateCohesion_def)
qed

text \<open>A class with a single method has one function definition, and its score is 1.\<close>

theorem calculateCohesion_range_witness:
  "functionDefinitions oneMethodClass < 2 \<and> calculateCohesion oneMethodClass = 1"
  using calculateCohesion_range [of oneMethodClass]
  by (simp add: oneMethodClass_def)

section \<open>Corpus statistics\<close>

lemma byFile_fold:
  "byFile (fold tallyResult rs t) = fold (\<lambda>r. assign (fileName r) (totalSmells r)) rs (byFile t)"
  by (induction rs arbitrary: t) (simp_all add: tallyResult_def)

lemma updateEntry_fresh: "k \<notin> fst ` set obj \<Longrightarrow> updateEntry k v obj = obj @ [(k, v)]"
  by (induction obj) auto

text \<open>With distinct file names every assignment creates a new key, at the end.\<close>

lemma fold_assign_distinct:
  "distinct (map fileName rs) \<Longrightarrow> ''__proto__'' \<notin> fileName ` set rs \<Longrightarrow>
   fileName ` set rs \<inter> fst ` set obj = {} \<Longrightarrow>
   fold (\<lambda>r. assign (fileName r) (totalSmells r)) rs obj = obj @ map entryOf rs"
proof (induction rs arbitrary: obj)
  case Nil
  then show ?case by simp
next
  case (Cons r rs)
  have fresh: "fileName r \<notin> fst ` set obj" using Cons.prems(3) by auto
  have step: "assign (fileName r) (totalSmells r) obj = obj @ [entryOf r]"
    using Cons.prems(2) fresh by (auto simp: assign_def updateEntry_fresh entryOf_def)
  have "fileName ` set rs \<inter> fst ` set (obj @ [entryOf r]) = {}"
    using Cons.prems(1,3) by (auto simp: entryOf_def)
  with Cons.IH [of "obj @ [entryOf r]"] Cons.prems(1,2) step show ?case
    by simp
qed

lemma smellsByFile_distinct:
  "distinct (map fileName rs) \<Longrightarrow> ''__proto__'' \<notin> fileName ` set rs \<Longrightarrow>
   smellsByFile (calculateStats rs) = map entryOf rs"
  using fold_assign_distinct [of rs "[]"]
  by (simp add: calculateStats_def Let_def byFile_fold)

lemma foldl_total: "foldl (\<lambda>sum r. sum + totalSmells r) a rs = a + sum_list (map totalSmells rs)"
  by (induction rs arbitrary: a) simp_all

lemma corpusTotalSmells_sum:
  "corpusTotalSmells (calculateStats rs) = sum_list (map totalSmells rs)"
  by (simp add: calculateStats_def Let_def foldl_total)

text \<open>
  C2, as amended. For every list of per-file results whose file names are pairwise
  distinct, none of them \<open>__proto__\<close>, the per-file finding counts of the statistics sum
  to the total finding count.
\<close>

theorem smellsByFile_sum_distinct:
  assumes "distinct (map fileName rs)" and "''__proto__'' \<notin> fileName ` set rs"
  shows "sum_list (map snd (smellsByFile (calculateStats rs)))
           = corpusTotalSmells (calculateStats rs)"
  using assms
  by (simp add: smellsByFile_distinct corpusTotalSmells_sum comp_def entryOf_def)

theorem smellsByFile_sum_distinct_witness:
  "distinct (map fileName [fileWith ''a.cpp'' 2, fileWith ''b.h'' 3])
   \<and> ''__proto__'' \<notin> fileName ` set [fileWith ''a.cpp'' 2, fileWith ''b.h'' 3]
   \<and> sum_list (map snd (smellsByFile (calculateStats [fileWith ''a.cpp'' 2, fileWith ''b.h'' 3])))
       = 5
   \<and> corpusTotalSmells (calculateStats [fileWith ''a.cpp'' 2, fileWith ''b.h'' 3]) = 5"
  using smellsByFile_sum_distinct [of "[fileWith ''a.cpp'' 2, fileWith ''b.h'' 3]"]
  by (simp add: fileWith_def corpusTotalSmells_sum)

text \<open>
  C2 as stated fails when two results carry the same file name: the second assignment
  overwrites the first, so the dictionary holds one count where the total has two.
\<close>

theorem smellsByFile_sum_duplicate_name:
  "sum_list (map snd (smellsByFile (calculateStats [fileWith ''a.cpp'' 1, fileWith ''a.cpp'' 1])))
     \<noteq> corpusTotalSmells (calculateStats [fileWith ''a.cpp'' 1, fileWith ''a.cpp'' 1])"
  by (simp add: calculateStats_def Let_def tallyResult_def assign_def fileWith_def)

subsection \<open>Average metrics\<close>

lemma foldl_metric:
  "foldl (\<lambda>acc r. acc + field (metrics r)) a rs
     = a + sum_list (map (\<lambda>r. field (metrics r)) rs)"
  by (induction rs arbitrary: a) (simp_all add: add.assoc)

lemma metricSum_sum: "metricSum field rs = sum_list (map (\<lambda>r. field (metrics r)) rs)"
  by (simp add: metricSum_def foldl_metric)

lemma divideBy_mean:
  "rs \<noteq> [] \<Longrightarrow> divideBy (metricSum field rs) (length rs) = Num (meanOf field rs)"
  by (simp add: divideBy_def metricSum_sum meanOf_def)

text \<open>
  C3, as amended. Each averaged metric is the sum of the field over all results divided
  by the file count, and the division has no guard: for a non-empty list each average
  is that quotient, and for the empty list each of them is 0 divided by 0, not a number.
\<close>

theorem averageMetrics_unguarded:
  "(rs \<noteq> [] \<longrightarrow>
      averageMetrics (calculateStats rs) =
        \<lparr>avgCyclomaticComplexity = Num (meanOf (\<lambda>m. real (cyclomaticComplexity m)) rs),
         avgLinesOfCode = Num (meanOf (\<lambda>m. real (linesOfCode m)) rs),
         avgMethodCount = Num (meanOf (\<lambda>m. real (methodCount m)) rs),
         avgInheritanceDepth = Num (meanOf (\<lambda>m. real (inheritanceDepth m)) rs),
         avgCouplingCount = Num (meanOf (\<lambda>m. real (couplingCount m)) rs),
         avgCohesionScore = Num (meanOf cohesionScore rs)\<rparr>)
   \<and> averageMetrics (calculateStats []) =
        \<lparr>avgCyclomaticComplexity = NaN, avgLinesOfCode = NaN, avgMethodCount = NaN,
         avgInheritanceDepth = NaN, avgCouplingCount = NaN, avgCohesionScore = NaN\<rparr>"
proof
  show "rs \<noteq> [] \<longrightarrow>
      averageMetrics (calculateStats rs) =
        \<lparr>avgCyclomaticComplexity = Num (meanOf (\<lambda>m. real (cyclomaticComplexity m)) rs),
         avgLinesOfCode = Num (meanOf (\<lambda>m. real (linesOfCode m)) rs),
         avgMethodCount = Num (meanOf (\<lambda>m. real (methodCount m)) rs),
         avgInheritanceDepth = Num (meanOf (\<lambda>m. real (inheritanceDepth m)) rs),
         avgCouplingCount = Num (meanOf (\<lambda>m. real (couplingCount m)) rs),
         avgCohesionScore = Num (meanOf cohesionScore rs)\<rparr>"
    by (simp add: calculateStats_def Let_def divideBy_mean)
  show "averageMetrics (calculateStats []) =
        \<lparr>avgCyclomaticComplexity = NaN, avgLinesOfCode = NaN, avgMethodCount = NaN,
         avgInheritanceDepth = NaN, avgCouplingCount = NaN, avgCohesionScore = NaN\<rparr>"
    by (simp add: calculateStats_def Let_def divideBy_def metricSum_def)
qed

theorem averageMetrics_unguarded_witness:
  "[fileWith ''a.cpp'' 2, fileWith ''b.h'' 3] \<noteq> []
   \<and> avgLinesOfCode (averageMetrics (calculateStats [fileWith ''a.cpp'' 2, fileWith ''b.h'' 3]))
       = Num 1"
  using averageMetrics_unguarded [of "[fileWith ''a.cpp'' 2, fileWith ''b.h'' 3]"]
  by (simp add: meanOf_def fileWith_def)

text \<open>C3 as stated fails on the empty batch: the averages are not numbers.\<close>

theorem averageMetrics_empty_NaN:
  "avgCyclomaticComplexity (averageMetrics (calculateStats [])) = NaN
   \<and> avgCohesionScore (averageMetrics (calculateStats [])) = NaN"
  by (simp add: calculateStats_def Let_def divideBy_def metricSum_def)

subsection \<open>Worst files\<close>

text \<open>With this comparator the sort is the stable sort by descending count.\<close>

lemma insertWith_insort:
  "insertWith (\<lambda>a b. int (smellCount b) - int (smellCount a)) x ys
     = insort_key (\<lambda>w. - int (smellCount w)) x ys"
  by (induction ys) simp_all

lemma sortWith_sort_key:
  "sortWith (\<lambda>a b. int (smellCount b) - int (smellCount a)) xs
     = sort_key (\<lambda>w. - int (smellCount w)) xs"
  by (induction xs) (simp_all add: sortWith_def insertWith_insort)

lemma objectEntries_plain:
  "list_all (\<lambda>kv. arrayIndex (fst kv) = None) obj \<Longrightarrow> objectEntries obj = obj"
proof -
  assume plain: "list_all (\<lambda>kv. arrayIndex (fst kv) = None) obj"
  then have "filter (\<lambda>kv. arrayIndex (fst kv) \<noteq> None) obj = []"
    by (simp add: list_all_iff)
  moreover from plain have "filter (\<lambda>kv. arrayIndex (fst kv) = None) obj = obj"
    by (simp add: list_all_iff)
  ultimately show ?thesis
    by (simp add: objectEntries_def)
qed

lemma worstFiles_eq:
  "worstFiles (calculateStats rs) =
     take 5 (sort_key (\<lambda>w. - int (smellCount w))
               (map (\<lambda>(name, count). \<lparr>worstFileName = name, smellCount = count\<rparr>)
                    (objectEntries (smellsByFile (calculateStats rs)))))"
  by (simp add: calculateStats_def Let_def sortWith_sort_key)

lemma sorted_descending:
  "sorted_wrt (\<lambda>a b. smellCount b \<le> smellCount a) (sort_key (\<lambda>w. - int (smellCount w)) xs)"
proof -
  have "sorted (map (\<lambda>w. - int (smellCount w)) (sort_key (\<lambda>w. - int (smellCount w)) xs))"
    by (rule sorted_sort_key)
  then show ?thesis
    by (simp add: sorted_map)
qed

lemma sorted_wrt_take: "sorted_wrt P xs \<Longrightarrow> sorted_wrt P (take n xs)"
  by (induction xs arbitrary: n) (auto simp: take_Cons split: nat.splits dest: in_set_takeD)

lemma filter_take_prefix: "prefix (filter P (take n xs)) (filter P xs)"
proof -
  have "filter P xs = filter P (take n xs) @ filter P (drop n xs)"
    by (metis append_take_drop_id filter_append)
  then show ?thesis
    by (simp add: prefix_def)
qed

text \<open>
  C7, as amended. For every list of per-file results whose file names are pairwise
  distinct, none of them an array index or \<open>__proto__\<close>, the worst files are the first
  five of the files sorted by descending finding count with a stable sort: they are in
  descending order, and the files with any one count are in their input order.
\<close>

theorem worstFiles_ranked:
  assumes "distinct (map fileName rs)"
    and "list_all (\<lambda>r. arrayIndex (fileName r) = None \<and> fileName r \<noteq> ''__proto__'') rs"
  shows "worstFiles (calculateStats rs)
           = take 5 (sort_key (\<lambda>w. - int (smellCount w)) (map worstOf rs))
         \<and> sorted_wrt (\<lambda>a b. smellCount b \<le> smellCount a) (worstFiles (calculateStats rs))
         \<and> (\<forall>c. prefix (filter (\<lambda>w. smellCount w = c) (worstFiles (calculateStats rs)))
                         (filter (\<lambda>w. smellCount w = c) (map worstOf rs)))"
proof -
  from assms(2) have noProto: "''__proto__'' \<notin> fileName ` set rs"
    by (auto simp: list_all_iff)
  with assms(1) have files: "smellsByFile (calculateStats rs) = map entryOf rs"
    by (rule smellsByFile_distinct)
  from assms(2) have "list_all (\<lambda>kv. arrayIndex (fst kv) = None) (map entryOf rs)"
    by (simp add: list_all_iff entryOf_def)
  then have "objectEntries (map entryOf rs) = map entryOf rs"
    by (rule objectEntries_plain)
  with files have eq: "worstFiles (calculateStats rs)
      = take 5 (sort_key (\<lambda>w. - int (smellCount w)) (map worstOf rs))"
    by (simp add: worstFiles_eq entryOf_def worstOf_def [abs_def] comp_def)
  have stable: "filter (\<lambda>w. smellCount w = c) (sort_key (\<lambda>w. - int (smellCount w)) xs)
                  = filter (\<lambda>w. smellCount w = c) xs" for c and xs :: "worstFile list"
    using sort_key_stable [of "\<lambda>w. - int (smellCount w)" "- int c" xs] by simp
  have "prefix (filter (\<lambda>w. smellCount w = c) (worstFiles (calculateStats rs)))
               (filter (\<lambda>w. smellCount w = c) (map worstOf rs))" for c
    using filter_take_prefix [of "\<lambda>w. smellCount w = c" 5
            "sort_key (\<lambda>w. - int (smellCount w)) (map worstOf rs)"]
    by (simp add: eq stable)
  with eq show ?thesis
    by (simp add: sorted_wrt_take sorted_descending)
qed

text \<open>Finding counts 5, 5, 3, 1: the two files tied at 5 keep their input order.\<close>

theorem worstFiles_ranked_witness:
  "distinct (map fileName tiedBatch)
   \<and> list_all (\<lambda>r. arrayIndex (fileName r) = None \<and> fileName r \<noteq> ''__proto__'') tiedBatch
   \<and> map worstFileName (worstFiles (calculateStats tiedBatch))
       = [''a.cpp'', ''b.cpp'', ''c.cpp'', ''d.cpp'']"
  using worstFiles_ranked [of tiedBatch]
  by (simp add: tiedBatch_def fileWith_def arrayIndex_def isDigit_def worstOf_def)

text \<open>
  C7 as stated fails for file names that are array indices: the dictionary lists such
  keys in numeric order, so two files named \<open>2\<close> and \<open>1\<close> that tie at 5 findings come
  out in the order \<open>1\<close>, \<open>2\<close>.
\<close>

theorem worstFiles_numeric_names_reordered:
  "map worstFileName (worstFiles (calculateStats [fileWith ''2'' 5, fileWith ''1'' 5]))
     = [''1'', ''2'']"
  by (simp add: calculateStats_def Let_def tallyResult_def assign_def fileWith_def
                objectEntries_def arrayIndex_def isDigit_def digitsValue_def indexValue_def
                sortWith_def)

section \<open>Stamped findings\<close>



lemma map_stamp:
  assumes "\<And>s x. f (s\<lparr>smellId := x\<rparr>) = f s"
  shows "map f (stamp ids found) = map f found"
proof -
  have "map f (stamp ids found) = map (\<lambda>p. f (snd p)) (zip [0..<length found] found)"
    by (simp add: stamp_def assms case_prod_unfold)
  also have "\<dots> = map f (map snd (zip [0..<length found] found))"
    by (simp only: map_map comp_def)
  also have "map snd (zip [0..<length found] found) = found"
    by (simp add: map_snd_zip)
  finally show ?thesis .
qed

section \<open>Deep nesting\<close>

























section \<open>Long functions\<close>




section \<open>Duplicate code\<close>



section \<open>Orchestrator\<close>

lemma erase_stamp: "map eraseId (stamp ids found) = map eraseId found"
  by (rule map_stamp) (simp add: eraseId_def)

lemma erase_thenDetect:
  "map eraseId (thenDetect ids found detector)
     = map eraseId found @ map eraseId (detector (\<lambda>k. ids (length found + k)))"
  by (simp add: thenDetect_def)

lemma erase_allSmells:
  "map eraseId (allSmells e ids content file rootNode)
     = map eraseId (allSmells e ids' content file rootNode)"
  by (simp add: allSmells_def erase_thenDetect erase_stamp
        detectLongFunctions_def detectLargeClasses_def detectLongParameterLists_def
        detectGlobalVariables_def detectDuplicateCode_def detectPrimitiveObsession_def
        detectInappropriateIntimacy_def detectComplexConditions_def detectDeepNesting_def)

lemma analyzeCode_Inr:
  assumes "analyzeCode e w st content file = (Inr r, st')"
  shows "\<exists>rootNode. parse e content = Some rootNode
           \<and> smells r = allSmells e (uuids w) content file rootNode
           \<and> calculateMetrics e \<lparr>fileContentStore = Map.empty, initialized = True\<rparr> content
               = Inr (metrics r)"
  using assms
  by (auto simp: analyzeCode_def getInstance_def parseCode_def calculateMetrics_def Let_def
           split: if_splits option.splits sum.splits)

text \<open>
  C9. Whatever identities, clock and state two runs of the analysis on the same text and
  file name start from, if both produce a result then the two lists of findings are
  equal once the identities are blanked (same types, lines, severities, descriptions
  and order), and the file-level metrics are equal.
\<close>

theorem analyzeCode_deterministic:
  assumes "analyzeCode e w1 st1 content file = (Inr r1, st1')"
    and "analyzeCode e w2 st2 content file = (Inr r2, st2')"
  shows "map eraseId (smells r1) = map eraseId (smells r2) \<and> metrics r1 = metrics r2"
proof -
  from analyzeCode_Inr [OF assms(1)] obtain root1 where
    one: "parse e content = Some root1" "smells r1 = allSmells e (uuids w1) content file root1"
      "calculateMetrics e \<lparr>fileContentStore = Map.empty, initialized = True\<rparr> content
         = Inr (metrics r1)"
    by blast
  from analyzeCode_Inr [OF assms(2)] obtain root2 where
    two: "parse e content = Some root2" "smells r2 = allSmells e (uuids w2) content file root2"
      "calculateMetrics e \<lparr>fileContentStore = Map.empty, initialized = True\<rparr> content
         = Inr (metrics r2)"
    by blast
  from one(1) two(1) have "root1 = root2" by simp
  with one(2) two(2) have "map eraseId (smells r1) = map eraseId (smells r2)"
    by (simp add: erase_allSmells [of e "uuids w1" content "file" root2 "uuids w2"])
  moreover from one(3) two(3) have "metrics r1 = metrics r2" by simp
  ultimately show ?thesis by simp
qed

lemma firstRun_ok: "firstRun = (Inr (projr (fst firstRun)), snd firstRun)"
  by (simp add: firstRun_def analyzeCode_def getInstance_def parseCode_def calculateMetrics_def
                Let_def bareEngine_def firstWorld_def freshState_def)

lemma secondRun_ok: "secondRun = (Inr (projr (fst secondRun)), snd secondRun)"
  by (simp add: secondRun_def firstRun_def analyzeCode_def getInstance_def parseCode_def
                calculateMetrics_def Let_def bareEngine_def firstWorld_def secondWorld_def
                freshState_def)

lemma firstRun_ids: "map smellId (smells (projr (fst firstRun))) = [''first'']"
  by code_simp

lemma secondRun_ids: "map smellId (smells (projr (fst secondRun))) = [''second'']"
  by code_simp

theorem analyzeCode_deterministic_witness:
  "firstRun = (Inr (projr (fst firstRun)), snd firstRun)
   \<and> secondRun = (Inr (projr (fst secondRun)), snd secondRun)
   \<and> map smellId (smells (projr (fst firstRun))) = [''first'']
   \<and> map smellId (smells (projr (fst secondRun))) = [''second'']
   \<and> map eraseId (smells (projr (fst firstRun))) = map eraseId (smells (projr (fst secondRun)))
   \<and> metrics (projr (fst firstRun)) = metrics (projr (fst secondRun))"
  using analyzeCode_deterministic
          [of bareEngine firstWorld freshState "nestedBlocks 4" "''a.cpp''"
              "projr (fst firstRun)" "snd firstRun"
              secondWorld "snd firstRun" "projr (fst secondRun)" "snd secondRun"]
        firstRun_ok secondRun_ok firstRun_ids secondRun_ids
  by (simp add: firstRun_def [symmetric] secondRun_def [symmetric])

text \<open>
  C10, as amended. The analysis stores the submitted text in the content cache before
  any parsing begins: whatever the outcome, the cache holds the new text under the file
  name afterwards, also when loading the grammar fails or the parser throws and no
  result is produced. Reading it back returns the new text when that is not empty, and
  the placeholder when it is empty.
\<close>

theorem analyzeCode_caches_first:
  "fileContentStore (snd (analyzeCode e w st content file)) file = Some content
   \<and> getFileContent (snd (analyzeCode e w st content file)) file
       = (if content = [] then ''// File content not available'' else content)
   \<and> (\<not> initialized st \<and> \<not> grammarLoads w \<longrightarrow>
        fst (analyzeCode e w st content file) = Inl InitializationFailed)
   \<and> (initialized st \<and> parse e content = None \<longrightarrow>
        fst (analyzeCode e w st content file) = Inl ParserThrew)"
  by (auto simp: analyzeCode_def getInstance_def parseCode_def calculateMetrics_def Let_def
                 getFileContent_def
           split: if_splits option.splits sum.splits)

theorem analyzeCode_caches_first_witness:
  "\<not> initialized staleState \<and> \<not> grammarLoads offlineWorld
   \<and> fst (analyzeCode bareEngine offlineWorld staleState ''int x;'' ''a.cpp'')
       = Inl InitializationFailed
   \<and> getFileContent staleState ''a.cpp'' = ''int old;''
   \<and> getFileContent (snd (analyzeCode bareEngine offlineWorld staleState ''int x;'' ''a.cpp''))
        ''a.cpp'' = ''int x;''
   \<and> initialized readyState \<and> parse (visiting []) ''int x;'' = None
   \<and> fst (analyzeCode (visiting []) firstWorld readyState ''int x;'' ''a.cpp'') = Inl ParserThrew
   \<and> getFileContent (snd (analyzeCode (visiting []) firstWorld readyState ''int x;'' ''a.cpp''))
        ''a.cpp'' = ''int x;''"
  using analyzeCode_caches_first [of bareEngine offlineWorld staleState "''int x;''" "''a.cpp''"]
        analyzeCode_caches_first [of "visiting []" firstWorld readyState "''int x;''" "''a.cpp''"]
  by (simp add: staleState_def readyState_def offlineWorld_def getFileContent_def visiting_def)

text \<open>
  C10 as stated fails for an empty text: the analysis fails, the cache holds the empty
  text, and reading it back returns the placeholder, not the submitted text.
\<close>

theorem getFileContent_empty_text:
  "fst (analyzeCode bareEngine offlineWorld staleState [] ''a.cpp'') = Inl InitializationFailed
   \<and> getFileContent (snd (analyzeCode bareEngine offlineWorld staleState [] ''a.cpp'')) ''a.cpp''
       = ''// File content not available''"
  by (simp add: analyzeCode_def getInstance_def getFileContent_def Let_def staleState_def
                offlineWorld_def)

end
